theory Spec2Isabelle
  imports Main
begin

section \<open>The CityWISE ML dependency installer (install\_ml\_dependencies.py)\<close>

text \<open>
  The script checks the interpreter version, runs \<^verbatim>\<open>python -m pip install\<close> once for each
  entry of a required and of an optional package list, and prints a report. Everything it
  does beyond computing is an effect: text written to standard output, child processes,
  and the way the run ends. The embedding makes each of them a value.
\<close>

subsection \<open>The environment of a run\<close>

text \<open>\<^verbatim>\<open>sys.version_info\<close>: three Python integers.\<close>

record version_info =
  major :: int
  minor :: int
  micro :: int

text \<open>
  What running one child process does, as \<^verbatim>\<open>subprocess.check_call\<close> sees it: the child runs
  and ends with an exit status, or the call raises before an exit status exists (the
  executable cannot be started, the wait is interrupted); the string names the exception.
\<close>

datatype child_result = Exit int | Raises string

text \<open>
  The environment: the interpreter's version and path, the behaviour of a child process
  given the commands run before it and its own command line, and the text that
  \<^verbatim>\<open>str\<close> gives for a \<^verbatim>\<open>CalledProcessError\<close> with a return code and a command (library code,
  taken as a parameter). The last field is the interpreter's too: the status with which
  the process ends when the named exception reaches the top level uncaught. CPython
  gives 1 for most exceptions; from 3.8 on an uncaught \<^verbatim>\<open>KeyboardInterrupt\<close> ends the
  process by the signal, seen as -2 by a parent that is itself Python.
\<close>

record env =
  sys_version_info :: version_info
  sys_executable :: string
  child :: "string list list \<Rightarrow> string list \<Rightarrow> child_result"
  exc_str :: "int \<Rightarrow> string list \<Rightarrow> string"
  uncaught_status :: "string \<Rightarrow> int"

subsection \<open>The state of a run\<close>

text \<open>
  \<open>stdout\<close> holds the text of each \<^verbatim>\<open>print\<close> call, in order; on the stream each is followed
  by a newline. \<open>check_calls\<close> holds the command line of each \<^verbatim>\<open>subprocess.check_call\<close>, in
  order. \<open>failed_packages\<close> is the local list of \<^verbatim>\<open>main\<close>. Writing to the stream is taken
  to succeed: \<open>print\<close> raises nothing.
\<close>

record state =
  stdout :: "string list"
  check_calls :: "string list list"
  failed_packages :: "string list"

text \<open>
  The exceptions that occur: \<^verbatim>\<open>SystemExit\<close> with its code, \<^verbatim>\<open>CalledProcessError\<close> with
  the return code and the command, and any other exception, by name.
\<close>

datatype exc = SystemExit int | CalledProcessError int "string list" | Other string

definition print :: "string \<Rightarrow> state \<Rightarrow> state" where
  "print text s = s\<lparr>stdout := stdout s @ [text]\<rparr>"

subsection \<open>Text\<close>

text \<open>
  Strings are byte lists; the four symbols of the script that are not ASCII are given by
  their UTF-8 bytes, as they stand in the source file.
\<close>

definition newline :: char where
  "newline = CHR 0x0A"

definition check_mark :: string where
  "check_mark = [CHR 0xE2, CHR 0x9C, CHR 0x93]"

definition ballot_x :: string where
  "ballot_x = [CHR 0xE2, CHR 0x9C, CHR 0x97]"

definition warning_sign :: string where
  "warning_sign = [CHR 0xE2, CHR 0x9A, CHR 0xA0, CHR 0xEF, CHR 0xB8, CHR 0x8F]"

definition check_box :: string where
  "check_box = [CHR 0xE2, CHR 0x9C, CHR 0x85]"

text \<open>\<^verbatim>\<open>str\<close> on an integer, as the f-string of the version line uses it.\<close>

fun str_nat :: "nat \<Rightarrow> string" where
  "str_nat n =
     (if n < 10 then [char_of (48 + n)]
      else str_nat (n div 10) @ [char_of (48 + n mod 10)])"

declare str_nat.simps [simp del]

definition str_int :: "int \<Rightarrow> string" where
  "str_int i = (if i < 0 then CHR ''-'' # str_nat (nat (- i)) else str_nat (nat i))"

subsection \<open>subprocess.check\_call\<close>

text \<open>
  \<^verbatim>\<open>check_call\<close> runs the command and waits: it returns 0 when the exit status is 0,
  raises \<^verbatim>\<open>CalledProcessError\<close> when it is not, and lets any other exception through.
  The command is logged whatever happens.
\<close>

definition check_call :: "env \<Rightarrow> string list \<Rightarrow> state \<Rightarrow> (exc + int) \<times> state" where
  "check_call e cmd s =
     (let s' = s\<lparr>check_calls := check_calls s @ [cmd]\<rparr> in
      case child e (check_calls s) cmd of
        Exit retcode \<Rightarrow>
          if retcode \<noteq> 0 then (Inl (CalledProcessError retcode cmd), s') else (Inr 0, s')
      | Raises x \<Rightarrow> (Inl (Other x), s'))"

subsection \<open>install\_package\<close>

text \<open>The command line \<^verbatim>\<open>[sys.executable, "-m", "pip", "install", package]\<close>.\<close>

definition pip_install :: "env \<Rightarrow> string \<Rightarrow> string list" where
  "pip_install e package = [sys_executable e, ''-m'', ''pip'', ''install'', package]"

definition install_package :: "env \<Rightarrow> string \<Rightarrow> state \<Rightarrow> (exc + bool) \<times> state" where
  "install_package e package s =
     (case check_call e (pip_install e package) s of
        (Inr _, s1) \<Rightarrow>
          (Inr True, print (check_mark @ '' Successfully installed '' @ package) s1)
      | (Inl (CalledProcessError retcode cmd), s1) \<Rightarrow>
          (Inr False,
           print (ballot_x @ '' Failed to install '' @ package @ '': '' @ exc_str e retcode cmd) s1)
      | (Inl x, s1) \<Rightarrow> (Inl x, s1))"

subsection \<open>check\_python\_version\<close>

definition check_python_version :: "env \<Rightarrow> state \<Rightarrow> bool \<times> state" where
  "check_python_version e s =
     (let version = sys_version_info e in
      if major version < 3 \<or> (major version = 3 \<and> minor version < 7)
      then (False, print ''Error: Python 3.7 or higher is required'' s)
      else (True,
            print (check_mark @ '' Python '' @ str_int (major version) @ ''.''
                   @ str_int (minor version) @ ''.'' @ str_int (micro version)
                   @ '' detected'') s))"

subsection \<open>main\<close>

definition packages :: "string list" where
  "packages =
     [''numpy>=1.21.0'',
      ''scikit-learn>=1.0.0'',
      ''pandas>=1.3.0'',
      ''joblib>=1.1.0'',
      ''pickle5>=0.0.11; python_version<'' @ [CHR 0x27] @ ''3.8'' @ [CHR 0x27]]"

definition optional_packages :: "string list" where
  "optional_packages =
     [''tensorflow>=2.8.0'',
      ''keras>=2.8.0'',
      ''matplotlib>=3.5.0'',
      ''seaborn>=0.11.0'']"

text \<open>
  The loop over the required packages (lines 58 to 60): a failed install appends the
  package to \<open>failed_packages\<close>; an exception ends the loop.
\<close>

fun required_loop :: "env \<Rightarrow> string list \<Rightarrow> state \<Rightarrow> (exc + unit) \<times> state" where
  "required_loop e [] s = (Inr (), s)"
| "required_loop e (package # rest) s =
     (case install_package e package s of
        (Inl x, s1) \<Rightarrow> (Inl x, s1)
      | (Inr ok, s1) \<Rightarrow>
          required_loop e rest
            (if \<not> ok then s1\<lparr>failed_packages := failed_packages s1 @ [package]\<rparr> else s1))"

text \<open>The loop over the optional packages (lines 63 and 64): the result is dropped.\<close>

fun optional_loop :: "env \<Rightarrow> string list \<Rightarrow> state \<Rightarrow> (exc + unit) \<times> state" where
  "optional_loop e [] s = (Inr (), s)"
| "optional_loop e (package # rest) s =
     (case install_package e package s of
        (Inl x, s1) \<Rightarrow> (Inl x, s1)
      | (Inr _, s1) \<Rightarrow> optional_loop e rest s1)"

text \<open>The loop that prints the failed packages (lines 70 and 71).\<close>

fun print_failed :: "string list \<Rightarrow> state \<Rightarrow> state" where
  "print_failed [] s = s"
| "print_failed (package # rest) s = print_failed rest (print (''   - '' @ package) s)"

definition main :: "env \<Rightarrow> state \<Rightarrow> (exc + unit) \<times> state" where
  "main e s0 =
     (let s1 = print ''CityWISE ML Dependencies Installation'' s0;
          s2 = print (replicate 40 CHR ''='') s1;
          (ok, s3) = check_python_version e s2
      in
      if \<not> ok then (Inl (SystemExit 1), s3)
      else
        let s4 = print (newline # ''Installing required packages...'') s3;
            s5 = s4\<lparr>failed_packages := []\<rparr>
        in
        case required_loop e packages s5 of
          (Inl x, s6) \<Rightarrow> (Inl x, s6)
        | (Inr _, s6) \<Rightarrow>
           (let s7 = print (newline # ''Installing optional packages...'') s6 in
            case optional_loop e optional_packages s7 of
              (Inl x, s8) \<Rightarrow> (Inl x, s8)
            | (Inr _, s8) \<Rightarrow>
                let s9 = print (newline # replicate 40 CHR ''='') s8 in
                if failed_packages s9 \<noteq> []
                then
                  let s10 = print (warning_sign @ ''  Some required packages failed to install:'') s9;
                      s11 = print_failed (failed_packages s10) s10;
                      s12 = print (newline # ''The ML models may not work properly without these packages.'') s11;
                      s13 = print ''Please install them manually or check your Python environment.'' s12
                  in (Inl (SystemExit 1), s13)
                else
                  let s10 = print (check_box @ '' All required ML dependencies installed successfully!'') s9;
                      s11 = print (newline # ''You can now use the trained ML models in the CityWISE platform:'') s10;
                      s12 = print ''   - Air Quality Predictor (air_quality_predictor.pkl)'' s11;
                      s13 = print ''   - Healthcare Priority Model (healthcare_priority_model.h5)'' s12;
                      s14 = print ''   - Healthcare Scaler (healthcare_scaler.pkl)'' s13;
                      s15 = print (newline # ''To test the installation, run:'') s14;
                      s16 = print (''   python -c '' @ [CHR 0x22]
                                   @ ''import sklearn, numpy, pandas; print(''
                                   @ [CHR 0x27] @ ''ML dependencies ready!'' @ [CHR 0x27]
                                   @ '')'' @ [CHR 0x22]) s15
                  in (Inr (), s16)))"

subsection \<open>The script\<close>

text \<open>
  The script calls \<^verbatim>\<open>main()\<close> on a fresh state. Its exit status is 0 when \<^verbatim>\<open>main\<close>
  returns and the code of a \<^verbatim>\<open>SystemExit\<close>; when any other exception reaches the top
  level it is what the interpreter makes of that exception.
\<close>

definition initial :: state where
  "initial = \<lparr>stdout = [], check_calls = [], failed_packages = []\<rparr>"

definition script :: "env \<Rightarrow> (exc + unit) \<times> state" where
  "script e = main e initial"

fun exit_status :: "env \<Rightarrow> (exc + unit) \<times> state \<Rightarrow> int" where
  "exit_status e (Inr _, _) = 0"
| "exit_status e (Inl (SystemExit code), _) = code"
| "exit_status e (Inl (CalledProcessError _ _), _) = uncaught_status e ''CalledProcessError''"
| "exit_status e (Inl (Other x), _) = uncaught_status e x"

section \<open>Notions used in the statements\<close>

subsection \<open>What the children of a run do\<close>

text \<open>
  The result of each child process when the packages of a list are installed one after
  the other, starting with the commands \<open>h\<close> already run. An entry after the first
  \<open>Raises\<close> is what the child would do, had the run reached it.
\<close>

fun child_results :: "env \<Rightarrow> string list list \<Rightarrow> string list \<Rightarrow> child_result list" where
  "child_results e h [] = []"
| "child_results e h (package # rest) =
     child e h (pip_install e package) # child_results e (h @ [pip_install e package]) rest"

fun exited :: "child_result \<Rightarrow> bool" where
  "exited (Exit _) = True"
| "exited (Raises _) = False"

fun succeeded :: "child_result \<Rightarrow> bool" where
  "succeeded (Exit retcode) = (retcode = 0)"
| "succeeded (Raises _) = False"

text \<open>The exception of the first child that raises, if one does.\<close>

fun first_raise :: "child_result list \<Rightarrow> string option" where
  "first_raise [] = None"
| "first_raise (Exit _ # rs) = first_raise rs"
| "first_raise (Raises x # _) = Some x"

text \<open>How many children are started: all up to and including the first that raises.\<close>

fun attempted :: "child_result list \<Rightarrow> nat" where
  "attempted [] = 0"
| "attempted (Exit _ # rs) = Suc (attempted rs)"
| "attempted (Raises _ # _) = 1"

text \<open>The packages whose install did not succeed, in list order.\<close>

definition failed_of :: "string list \<Rightarrow> child_result list \<Rightarrow> string list" where
  "failed_of ps rs = map fst (filter (\<lambda>(p, r). \<not> succeeded r) (zip ps rs))"

text \<open>The version gate, read off \<open>check_python_version\<close>.\<close>

definition gate_passes :: "env \<Rightarrow> bool" where
  "gate_passes e = fst (check_python_version e initial)"

subsection \<open>Expected output\<close>

definition version_line :: "env \<Rightarrow> string" where
  "version_line e =
     check_mark @ '' Python '' @ str_int (major (sys_version_info e)) @ ''.''
     @ str_int (minor (sys_version_info e)) @ ''.'' @ str_int (micro (sys_version_info e))
     @ '' detected''"

text \<open>The line that \<open>install_package\<close> prints for a package, given what its child did.\<close>

fun package_line :: "env \<Rightarrow> string \<Rightarrow> child_result \<Rightarrow> string list" where
  "package_line e package (Exit retcode) =
     (if retcode = 0 then [check_mark @ '' Successfully installed '' @ package]
      else [ballot_x @ '' Failed to install '' @ package @ '': ''
            @ exc_str e retcode (pip_install e package)])"
| "package_line e package (Raises _) = []"

definition success_block :: "string list" where
  "success_block =
     [check_box @ '' All required ML dependencies installed successfully!'',
      newline # ''You can now use the trained ML models in the CityWISE platform:'',
      ''   - Air Quality Predictor (air_quality_predictor.pkl)'',
      ''   - Healthcare Priority Model (healthcare_priority_model.h5)'',
      ''   - Healthcare Scaler (healthcare_scaler.pkl)'',
      newline # ''To test the installation, run:'',
      ''   python -c '' @ [CHR 0x22] @ ''import sklearn, numpy, pandas; print(''
        @ [CHR 0x27] @ ''ML dependencies ready!'' @ [CHR 0x27] @ '')'' @ [CHR 0x22]]"

definition failure_block :: "string list \<Rightarrow> string list" where
  "failure_block failed =
     [warning_sign @ ''  Some required packages failed to install:'']
     @ map (\<lambda>package. ''   - '' @ package) failed
     @ [newline # ''The ML models may not work properly without these packages.'',
        ''Please install them manually or check your Python environment.'']"

text \<open>
  A printed text is a rule when its first character after leading newlines is \<open>=\<close>.
\<close>

definition starts_with_rule :: "string \<Rightarrow> bool" where
  "starts_with_rule text =
     (case dropWhile (\<lambda>c. c = newline) text of [] \<Rightarrow> False | c # _ \<Rightarrow> c = CHR ''='')"

subsection \<open>The states between the phases of main\<close>

text \<open>The state in which \<open>main\<close> enters the loop over the required packages.\<close>

definition before_required :: "env \<Rightarrow> state \<Rightarrow> state" where
  "before_required e s0 =
     (print (newline # ''Installing required packages...'')
        (print (version_line e)
           (print (replicate 40 CHR ''='')
              (print ''CityWISE ML Dependencies Installation'' s0))))
     \<lparr>failed_packages := []\<rparr>"

text \<open>The state in which it enters the loop over the optional packages.\<close>

definition before_optional :: "env \<Rightarrow> state \<Rightarrow> state" where
  "before_optional e s0 =
     print (newline # ''Installing optional packages...'')
       (snd (required_loop e packages (before_required e s0)))"

subsection \<open>Sample environments\<close>

text \<open>Python 3.9.0 on which every install succeeds.\<close>

definition env_ok :: env where
  "env_ok =
     \<lparr>sys_version_info = \<lparr>major = 3, minor = 9, micro = 0\<rparr>,
      sys_executable = ''/usr/bin/python3'',
      child = (\<lambda>h cmd. Exit 0),
      exc_str = (\<lambda>retcode cmd. ''Command returned non-zero exit status''),
      uncaught_status = (\<lambda>x. if x = ''KeyboardInterrupt'' then - 2 else 1)\<rparr>"

text \<open>Python 3.6.9.\<close>

definition env_old :: env where
  "env_old = env_ok\<lparr>sys_version_info := \<lparr>major = 3, minor = 6, micro = 9\<rparr>\<rparr>"

text \<open>One required package, one optional package, the marked package fail to install.\<close>

definition env_pandas_fails :: env where
  "env_pandas_fails =
     env_ok\<lparr>child := (\<lambda>h cmd. if last cmd = ''pandas>=1.3.0'' then Exit 1 else Exit 0)\<rparr>"

definition env_keras_fails :: env where
  "env_keras_fails =
     env_ok\<lparr>child := (\<lambda>h cmd. if last cmd = ''keras>=2.8.0'' then Exit 1 else Exit 0)\<rparr>"

definition env_pickle5_fails :: env where
  "env_pickle5_fails =
     env_ok\<lparr>child := (\<lambda>h cmd. if take 7 (last cmd) = ''pickle5'' then Exit 1 else Exit 0)\<rparr>"

text \<open>
  The operating system refuses to start a child (\<^verbatim>\<open>OSError\<close>: out of memory, no such
  file): for the first optional package, and for the first required one.
\<close>

definition env_tensorflow_raises :: env where
  "env_tensorflow_raises =
     env_ok\<lparr>child := (\<lambda>h cmd. if last cmd = ''tensorflow>=2.8.0'' then Raises ''OSError''
                               else Exit 0)\<rparr>"

definition env_numpy_raises :: env where
  "env_numpy_raises =
     env_ok\<lparr>child := (\<lambda>h cmd. if last cmd = ''numpy>=1.21.0'' then Raises ''OSError''
                               else Exit 0)\<rparr>"

text \<open>The install of pandas fails, and the child of the first optional install cannot start.\<close>

definition env_pandas_fails_tensorflow_raises :: env where
  "env_pandas_fails_tensorflow_raises =
     env_ok\<lparr>child := (\<lambda>h cmd. if last cmd = ''pandas>=1.3.0'' then Exit 1
                               else if last cmd = ''tensorflow>=2.8.0'' then Raises ''OSError''
                               else Exit 0)\<rparr>"

lemmas env_defs = env_ok_def env_old_def env_pandas_fails_def env_keras_fails_def
  env_pickle5_fails_def env_tensorflow_raises_def env_numpy_raises_def
  env_pandas_fails_tensorflow_raises_def

section \<open>Properties of the parts\<close>

subsection \<open>install\_package and the loops\<close>

lemma install_package_Exit:
  assumes "child e (check_calls s) (pip_install e package) = Exit n"
  shows "install_package e package s =
    (Inr (n = 0),
     s\<lparr>check_calls := check_calls s @ [pip_install e package],
       stdout := stdout s @ package_line e package (Exit n)\<rparr>)"
  using assms by (simp add: install_package_def check_call_def print_def Let_def)

lemma install_package_Raises:
  assumes "child e (check_calls s) (pip_install e package) = Raises x"
  shows "install_package e package s =
    (Inl (Other x), s\<lparr>check_calls := check_calls s @ [pip_install e package]\<rparr>)"
  using assms by (simp add: install_package_def check_call_def print_def Let_def)

lemma first_raise_None: "first_raise rs = None \<longleftrightarrow> list_all exited rs"
  by (induction rs rule: first_raise.induct) auto

lemma child_results_append:
  "child_results e h (ps @ qs) = child_results e h ps @ child_results e (h @ map (pip_install e) ps) qs"
  by (induction ps arbitrary: h) auto

lemma length_child_results [simp]: "length (child_results e h ps) = length ps"
  by (induction ps arbitrary: h) auto

lemma required_loop_exited:
  assumes "list_all exited (child_results e (check_calls s) ps)"
  shows "required_loop e ps s =
    (Inr (),
     s\<lparr>stdout := stdout s @ concat (map2 (package_line e) ps (child_results e (check_calls s) ps)),
       check_calls := check_calls s @ map (pip_install e) ps,
       failed_packages := failed_packages s @ failed_of ps (child_results e (check_calls s) ps)\<rparr>)"
  using assms
proof (induction ps arbitrary: s)
  case Nil
  show ?case by (simp add: failed_of_def)
next
  case (Cons p ps)
  from Cons.prems obtain n where n: "child e (check_calls s) (pip_install e p) = Exit n"
    by (cases "child e (check_calls s) (pip_install e p)") auto
  show ?case
    using Cons.prems n
    by (simp add: install_package_Exit Cons.IH failed_of_def)
qed

lemma optional_loop_exited:
  assumes "list_all exited (child_results e (check_calls s) ps)"
  shows "optional_loop e ps s =
    (Inr (),
     s\<lparr>stdout := stdout s @ concat (map2 (package_line e) ps (child_results e (check_calls s) ps)),
       check_calls := check_calls s @ map (pip_install e) ps\<rparr>)"
  using assms
proof (induction ps arbitrary: s)
  case Nil
  show ?case by simp
next
  case (Cons p ps)
  from Cons.prems obtain n where n: "child e (check_calls s) (pip_install e p) = Exit n"
    by (cases "child e (check_calls s) (pip_install e p)") auto
  show ?case
    using Cons.prems n
    by (simp add: install_package_Exit Cons.IH)
qed

lemma required_loop_raise:
  assumes "first_raise (child_results e (check_calls s) ps) = Some x"
  shows "fst (required_loop e ps s) = Inl (Other x)"
  using assms
proof (induction ps arbitrary: s)
  case Nil
  then show ?case by simp
next
  case (Cons p ps)
  show ?case
  proof (cases "child e (check_calls s) (pip_install e p)")
    case (Exit n)
    with Cons.prems show ?thesis
      by (simp add: install_package_Exit Cons.IH)
  next
    case (Raises y)
    with Cons.prems show ?thesis
      by (simp add: install_package_Raises)
  qed
qed

subsection \<open>A run that reaches its report\<close>

lemma gate_passes_iff:
  "gate_passes e \<longleftrightarrow>
     3 < major (sys_version_info e) \<or>
     (major (sys_version_info e) = 3 \<and> 7 \<le> minor (sys_version_info e))"
  by (auto simp: gate_passes_def check_python_version_def Let_def)

lemma check_python_version_pass:
  "gate_passes e \<Longrightarrow> check_python_version e s = (True, print (version_line e) s)"
  by (auto simp: gate_passes_def check_python_version_def Let_def version_line_def)

lemma check_python_version_fail:
  "\<not> gate_passes e \<Longrightarrow>
     check_python_version e s = (False, print ''Error: Python 3.7 or higher is required'' s)"
  by (simp add: gate_passes_def check_python_version_def Let_def split: if_splits)

lemma print_failed_eq:
  "print_failed ps s = s\<lparr>stdout := stdout s @ map (\<lambda>package. ''   - '' @ package) ps\<rparr>"
  by (induction ps arbitrary: s) (simp_all add: print_def)

lemma main_complete:
  assumes gate: "gate_passes e"
    and req: "list_all exited (child_results e (check_calls s0) packages)"
    and opt: "list_all exited
                (child_results e (check_calls s0 @ map (pip_install e) packages) optional_packages)"
  shows "main e s0 =
    (if failed_of packages (child_results e (check_calls s0) packages) = [] then Inr ()
     else Inl (SystemExit 1),
     \<lparr>stdout = stdout s0
         @ [''CityWISE ML Dependencies Installation'', replicate 40 CHR ''='', version_line e,
            newline # ''Installing required packages...'']
         @ concat (map2 (package_line e) packages (child_results e (check_calls s0) packages))
         @ [newline # ''Installing optional packages...'']
         @ concat (map2 (package_line e) optional_packages
             (child_results e (check_calls s0 @ map (pip_install e) packages) optional_packages))
         @ [newline # replicate 40 CHR ''='']
         @ (if failed_of packages (child_results e (check_calls s0) packages) = [] then success_block
            else failure_block (failed_of packages (child_results e (check_calls s0) packages))),
      check_calls = check_calls s0 @ map (pip_install e) (packages @ optional_packages),
      failed_packages = failed_of packages (child_results e (check_calls s0) packages)\<rparr>)"
proof -
  let ?s5 = "(print (newline # ''Installing required packages...'')
               (print (version_line e)
                 (print (replicate 40 CHR ''='')
                   (print ''CityWISE ML Dependencies Installation'' s0))))
             \<lparr>failed_packages := []\<rparr>"
  have c5: "check_calls ?s5 = check_calls s0"
    by (simp add: print_def)
  have r: "required_loop e packages ?s5 =
    (Inr (),
     ?s5\<lparr>stdout := stdout ?s5 @ concat (map2 (package_line e) packages (child_results e (check_calls s0) packages)),
       check_calls := check_calls s0 @ map (pip_install e) packages,
       failed_packages := failed_of packages (child_results e (check_calls s0) packages)\<rparr>)"
    using required_loop_exited [of e ?s5 packages] req c5 by (simp add: print_def)
  let ?s6 = "?s5\<lparr>stdout := stdout ?s5 @ concat (map2 (package_line e) packages (child_results e (check_calls s0) packages)),
       check_calls := check_calls s0 @ map (pip_install e) packages,
       failed_packages := failed_of packages (child_results e (check_calls s0) packages)\<rparr>"
  let ?s7 = "print (newline # ''Installing optional packages...'') ?s6"
  have c7: "check_calls ?s7 = check_calls s0 @ map (pip_install e) packages"
    by (simp add: print_def)
  have o: "optional_loop e optional_packages ?s7 =
    (Inr (),
     ?s7\<lparr>stdout := stdout ?s7 @ concat (map2 (package_line e) optional_packages
             (child_results e (check_calls s0 @ map (pip_install e) packages) optional_packages)),
       check_calls := check_calls s0 @ map (pip_install e) packages @ map (pip_install e) optional_packages\<rparr>)"
    using optional_loop_exited [of e ?s7 optional_packages] opt c7 by (simp add: print_def)
  show ?thesis
    unfolding main_def Let_def check_python_version_pass [OF gate] prod.case
    using r o
    by (simp add: print_def print_failed_eq success_block_def failure_block_def)
qed

subsection \<open>A run cut short by an exception\<close>

lemma first_raise_append:
  "first_raise (rs @ ts) = (case first_raise rs of Some x \<Rightarrow> Some x | None \<Rightarrow> first_raise ts)"
  by (induction rs rule: first_raise.induct) auto

lemma attempted_append:
  "attempted (rs @ ts) = (if list_all exited rs then length rs + attempted ts else attempted rs)"
  by (induction rs rule: attempted.induct) auto

lemma attempted_exited: "list_all exited rs \<Longrightarrow> attempted rs = length rs"
  by (induction rs rule: attempted.induct) auto

lemma attempted_le: "attempted rs \<le> length rs"
  by (induction rs rule: attempted.induct) auto

lemma first_raise_cases:
  obtains "list_all exited rs" | x where "first_raise rs = Some x"
  using first_raise_None [of rs] by (cases "first_raise rs") auto

lemma optional_loop_raise:
  assumes "first_raise (child_results e (check_calls s) ps) = Some x"
  shows "fst (optional_loop e ps s) = Inl (Other x)"
  using assms
proof (induction ps arbitrary: s)
  case Nil
  then show ?case by simp
next
  case (Cons p ps)
  show ?case
  proof (cases "child e (check_calls s) (pip_install e p)")
    case (Exit n)
    with Cons.prems show ?thesis
      by (simp add: install_package_Exit Cons.IH)
  next
    case (Raises y)
    with Cons.prems show ?thesis
      by (simp add: install_package_Raises)
  qed
qed

lemma required_loop_calls:
  "check_calls (snd (required_loop e ps s)) =
     check_calls s @ map (pip_install e) (take (attempted (child_results e (check_calls s) ps)) ps)"
proof (induction ps arbitrary: s)
  case Nil
  show ?case by simp
next
  case (Cons p ps)
  show ?case
  proof (cases "child e (check_calls s) (pip_install e p)")
    case (Exit n)
    then show ?thesis
      by (simp add: install_package_Exit Cons.IH)
  next
    case (Raises y)
    then show ?thesis
      by (simp add: install_package_Raises)
  qed
qed

lemma optional_loop_calls:
  "check_calls (snd (optional_loop e ps s)) =
     check_calls s @ map (pip_install e) (take (attempted (child_results e (check_calls s) ps)) ps)"
proof (induction ps arbitrary: s)
  case Nil
  show ?case by simp
next
  case (Cons p ps)
  show ?case
  proof (cases "child e (check_calls s) (pip_install e p)")
    case (Exit n)
    then show ?thesis
      by (simp add: install_package_Exit Cons.IH)
  next
    case (Raises y)
    then show ?thesis
      by (simp add: install_package_Raises)
  qed
qed

lemma install_package_failed_packages:
  "failed_packages (snd (install_package e package s)) = failed_packages s"
  by (cases "child e (check_calls s) (pip_install e package)")
     (simp_all add: install_package_Exit install_package_Raises)

lemma optional_loop_failed_packages:
  "failed_packages (snd (optional_loop e ps s)) = failed_packages s"
proof (induction ps arbitrary: s)
  case Nil
  show ?case by simp
next
  case (Cons p ps)
  show ?case
  proof (cases "install_package e p s")
    case (Pair r s1)
    have "failed_packages s1 = failed_packages s"
      using install_package_failed_packages [of e p s] Pair by simp
    then show ?thesis
      using Pair Cons.IH [of s1] by (cases r) simp_all
  qed
qed

lemma check_calls_before_required [simp]:
  "check_calls (before_required e s0) = check_calls s0"
  by (simp add: before_required_def print_def)

lemma main_raise_required:
  assumes gate: "gate_passes e"
    and raise: "first_raise (child_results e (check_calls s0) packages) = Some x"
  shows "main e s0 = (Inl (Other x), snd (required_loop e packages (before_required e s0)))"
proof -
  have "fst (required_loop e packages (before_required e s0)) = Inl (Other x)"
    using required_loop_raise [of e "before_required e s0" packages x] raise by simp
  then obtain s6 where "required_loop e packages (before_required e s0) = (Inl (Other x), s6)"
    by (cases "required_loop e packages (before_required e s0)") auto
  then show ?thesis
    unfolding main_def Let_def check_python_version_pass [OF gate] prod.case
    by (simp add: before_required_def)
qed

lemma check_calls_before_optional:
  assumes "list_all exited (child_results e (check_calls s0) packages)"
  shows "check_calls (before_optional e s0) = check_calls s0 @ map (pip_install e) packages"
  using assms
  by (simp add: before_optional_def print_def required_loop_calls attempted_exited)

lemma main_raise_optional:
  assumes gate: "gate_passes e"
    and req: "list_all exited (child_results e (check_calls s0) packages)"
    and raise: "first_raise (child_results e (check_calls s0 @ map (pip_install e) packages)
                  optional_packages) = Some x"
  shows "main e s0 = (Inl (Other x), snd (optional_loop e optional_packages (before_optional e s0)))"
proof -
  have r: "required_loop e packages (before_required e s0) =
             (Inr (), snd (required_loop e packages (before_required e s0)))"
    using required_loop_exited [of e "before_required e s0" packages] req by simp
  have "fst (optional_loop e optional_packages (before_optional e s0)) = Inl (Other x)"
    using optional_loop_raise [of e "before_optional e s0" optional_packages x] raise
      check_calls_before_optional [OF req] by simp
  then obtain s8 where o: "optional_loop e optional_packages (before_optional e s0) = (Inl (Other x), s8)"
    by (cases "optional_loop e optional_packages (before_optional e s0)") auto
  have "main e s0 =
    (case required_loop e packages (before_required e s0) of
       (Inl x, s6) \<Rightarrow> (Inl x, s6)
     | (Inr _, s6) \<Rightarrow>
        (case optional_loop e optional_packages
                (print (newline # ''Installing optional packages...'') s6) of
           (Inl x, s8) \<Rightarrow> (Inl x, s8)
         | (Inr u, s8) \<Rightarrow> main e s0))"
    unfolding main_def Let_def check_python_version_pass [OF gate] prod.case
    by (simp add: before_required_def split: prod.splits sum.splits)
  also have "\<dots> = (Inl (Other x), s8)"
    using o by (subst r) (simp add: before_optional_def)
  finally show ?thesis using o by simp
qed

lemma main_calls:
  assumes gate: "gate_passes e"
  shows "check_calls (snd (main e s0)) =
     check_calls s0 @ map (pip_install e)
       (take (attempted (child_results e (check_calls s0) (packages @ optional_packages)))
          (packages @ optional_packages))"
proof (cases "child_results e (check_calls s0) packages" rule: first_raise_cases)
  case 1
  note req = this
  show ?thesis
  proof (cases "child_results e (check_calls s0 @ map (pip_install e) packages) optional_packages"
      rule: first_raise_cases)
    case 1
    then show ?thesis
      using req
      by (simp add: main_complete [OF gate] child_results_append attempted_append attempted_exited)
  next
    case (2 x)
    then have ne: "\<not> list_all exited
        (child_results e (check_calls s0 @ map (pip_install e) packages) optional_packages)"
      using first_raise_None by (metis option.distinct(1))
    show ?thesis
      using req 2
      by (simp add: main_raise_optional [OF gate] optional_loop_calls
          check_calls_before_optional child_results_append attempted_append attempted_exited)
  qed
next
  case (2 x)
  then have ne: "\<not> list_all exited (child_results e (check_calls s0) packages)"
    using first_raise_None by (metis option.distinct(1))
  have le: "attempted (child_results e (check_calls s0) packages) \<le> length packages"
    using attempted_le [of "child_results e (check_calls s0) packages"] by simp
  show ?thesis
    using 2 ne le
    by (simp add: main_raise_required [OF gate] required_loop_calls child_results_append
        attempted_append)
qed

subsection \<open>Exit status\<close>

lemma succeeded_exited: "list_all succeeded rs \<Longrightarrow> list_all exited rs"
  by (induction rs rule: attempted.induct) auto

lemma failed_of_Nil_iff:
  "length rs = length ps \<Longrightarrow> failed_of ps rs = [] \<longleftrightarrow> list_all succeeded rs"
  by (induction ps rs rule: list_induct2') (auto simp: failed_of_def)

lemma main_gate_fails:
  assumes "\<not> gate_passes e"
  shows "main e s0 =
    (Inl (SystemExit 1),
     s0\<lparr>stdout := stdout s0 @ [''CityWISE ML Dependencies Installation'',
        replicate 40 CHR ''='', ''Error: Python 3.7 or higher is required'']\<rparr>)"
  unfolding main_def Let_def check_python_version_fail [OF assms] prod.case
  by (simp add: print_def)

lemma main_exit_status:
  assumes gate: "gate_passes e"
  shows "exit_status e (main e s0) =
    (case first_raise (child_results e (check_calls s0) (packages @ optional_packages)) of
       Some x \<Rightarrow> uncaught_status e x
     | None \<Rightarrow>
         if list_all succeeded (child_results e (check_calls s0) packages) then 0 else 1)"
proof (cases "child_results e (check_calls s0) packages" rule: first_raise_cases)
  case 1
  note req = this
  then have none: "first_raise (child_results e (check_calls s0) packages) = None"
    by (simp add: first_raise_None)
  show ?thesis
  proof (cases "child_results e (check_calls s0 @ map (pip_install e) packages) optional_packages"
      rule: first_raise_cases)
    case 1
    then have "first_raise
        (child_results e (check_calls s0 @ map (pip_install e) packages) optional_packages) = None"
      by (simp add: first_raise_None)
    then show ?thesis
      using req 1 none
      by (simp add: main_complete [OF gate] failed_of_Nil_iff child_results_append
          first_raise_append)
  next
    case (2 x)
    then show ?thesis
      using req none
      by (simp add: main_raise_optional [OF gate] child_results_append first_raise_append)
  qed
next
  case (2 x)
  then show ?thesis
    by (simp add: main_raise_required [OF gate] child_results_append first_raise_append)
qed

lemma main_failed_packages:
  assumes gate: "gate_passes e"
    and req: "list_all exited (child_results e (check_calls s0) packages)"
  shows "failed_packages (snd (main e s0)) = failed_of packages (child_results e (check_calls s0) packages)"
proof (cases "child_results e (check_calls s0 @ map (pip_install e) packages) optional_packages"
    rule: first_raise_cases)
  case 1
  then show ?thesis
    using req by (simp add: main_complete [OF gate])
next
  case (2 x)
  show ?thesis
    using req 2
    by (simp add: main_raise_optional [OF gate] optional_loop_failed_packages
        before_optional_def before_required_def print_def required_loop_exited)
qed

subsection \<open>Rules in the output\<close>

lemma filter_stdout_print:
  "filter P (stdout (print text s)) = filter P (stdout s) @ (if P text then [text] else [])"
  by (simp add: print_def)

lemma not_rule_check_mark [simp]: "\<not> starts_with_rule (check_mark @ text)"
  by (simp add: starts_with_rule_def check_mark_def newline_def)

lemma not_rule_ballot_x [simp]: "\<not> starts_with_rule (ballot_x @ text)"
  by (simp add: starts_with_rule_def ballot_x_def newline_def)

lemma not_rule_item [simp]: "\<not> starts_with_rule (''   - '' @ text)"
  by (simp add: starts_with_rule_def newline_def)

lemma filter_rule_package_line [simp]: "filter starts_with_rule (package_line e p r) = []"
  by (cases r) simp_all

lemma filter_rule_install_package:
  "filter starts_with_rule (stdout (snd (install_package e p s))) =
     filter starts_with_rule (stdout s)"
  by (cases "child e (check_calls s) (pip_install e p)")
     (simp_all add: install_package_Exit install_package_Raises)

lemma filter_rule_required_loop:
  "filter starts_with_rule (stdout (snd (required_loop e ps s))) =
     filter starts_with_rule (stdout s)"
proof (induction ps arbitrary: s)
  case Nil
  show ?case by simp
next
  case (Cons p ps)
  show ?case
  proof (cases "install_package e p s")
    case (Pair r s1)
    have "filter starts_with_rule (stdout s1) = filter starts_with_rule (stdout s)"
      using filter_rule_install_package [of e p s] Pair by simp
    then show ?thesis
      using Pair Cons.IH by (cases r) simp_all
  qed
qed

lemma filter_rule_optional_loop:
  "filter starts_with_rule (stdout (snd (optional_loop e ps s))) =
     filter starts_with_rule (stdout s)"
proof (induction ps arbitrary: s)
  case Nil
  show ?case by simp
next
  case (Cons p ps)
  show ?case
  proof (cases "install_package e p s")
    case (Pair r s1)
    have "filter starts_with_rule (stdout s1) = filter starts_with_rule (stdout s)"
      using filter_rule_install_package [of e p s] Pair by simp
    then show ?thesis
      using Pair Cons.IH by (cases r) simp_all
  qed
qed

lemma filter_rule_lines:
  "filter starts_with_rule (concat (map2 (package_line e) ps rs)) = []"
  by (induction ps rs rule: list_induct2') simp_all

lemma banner_Cons: "replicate 40 CHR ''='' = CHR ''='' # replicate 39 CHR ''=''"
proof -
  have "(40::nat) = Suc 39" by simp
  then show ?thesis by (simp only: replicate_Suc)
qed

lemma rule_banner [simp]: "starts_with_rule (replicate 40 CHR ''='')"
  by (simp add: starts_with_rule_def newline_def banner_Cons)

lemma rule_newline_banner [simp]: "starts_with_rule (newline # replicate 40 CHR ''='')"
  by (simp add: starts_with_rule_def newline_def banner_Cons)

lemma filter_rule_before_required:
  "filter starts_with_rule (stdout (before_required e s0)) =
     filter starts_with_rule (stdout s0) @ [replicate 40 CHR ''='']"
  by (simp add: before_required_def print_def version_line_def)
     (simp add: starts_with_rule_def newline_def)

lemma filter_rule_main:
  "filter starts_with_rule (stdout (snd (main e s0))) =
     filter starts_with_rule (stdout s0) @
     (if gate_passes e \<and>
         list_all exited (child_results e (check_calls s0) (packages @ optional_packages))
      then [replicate 40 CHR ''='', newline # replicate 40 CHR ''='']
      else [replicate 40 CHR ''=''])"
proof (cases "gate_passes e")
  case False
  then show ?thesis
    by (simp add: main_gate_fails) (simp add: starts_with_rule_def newline_def)
next
  case gate: True
  show ?thesis
  proof (cases "child_results e (check_calls s0) packages" rule: first_raise_cases)
    case 1
    note req = this
    show ?thesis
    proof (cases "child_results e (check_calls s0 @ map (pip_install e) packages) optional_packages"
        rule: first_raise_cases)
      case 1
      then show ?thesis
        using req gate
        apply (simp add: main_complete [OF gate] child_results_append filter_rule_lines
            success_block_def failure_block_def filter_empty_conv)
        apply (simp add: starts_with_rule_def newline_def version_line_def check_mark_def
            check_box_def warning_sign_def)
        done
    next
      case (2 x)
      then have "\<not> list_all exited
          (child_results e (check_calls s0 @ map (pip_install e) packages) optional_packages)"
        using first_raise_None by (metis option.distinct(1))
      then show ?thesis
        using req 2 gate
        by (simp add: main_raise_optional [OF gate] child_results_append filter_rule_optional_loop
            before_optional_def filter_stdout_print filter_rule_required_loop
            filter_rule_before_required)
           (simp add: starts_with_rule_def newline_def)
    qed
  next
    case (2 x)
    then have "\<not> list_all exited (child_results e (check_calls s0) packages)"
      using first_raise_None by (metis option.distinct(1))
    then show ?thesis
      using 2 gate
      by (simp add: main_raise_required [OF gate] child_results_append filter_rule_required_loop
          filter_rule_before_required)
  qed
qed

subsection \<open>The report\<close>

lemma check_calls_initial [simp]: "check_calls initial = []"
  by (simp add: initial_def)

lemma stdout_initial [simp]: "stdout initial = []"
  by (simp add: initial_def)

lemma failed_of_Exit:
  "failed_of ps (map Exit codes) =
     map fst (filter (\<lambda>(p, retcode). retcode \<noteq> 0) (zip ps codes))"
  by (induction ps codes rule: list_induct2') (simp_all add: failed_of_def)

lemma length_package_lines:
  "list_all exited rs \<Longrightarrow> length rs = length ps \<Longrightarrow>
     length (concat (map2 (package_line e) ps rs)) = length ps"
proof (induction ps rs rule: list_induct2')
  case (4 p ps r rs)
  then show ?case by (cases r) simp_all
qed simp_all

lemma length_packages [simp]: "length packages = 5"
  by (simp add: packages_def)

lemma length_optional_packages [simp]: "length optional_packages = 4"
  by (simp add: optional_packages_def)

text \<open>The output of a run that reaches its report: fourteen lines, then the report.\<close>

lemma main_complete_stdout:
  assumes gate: "gate_passes e"
    and req: "list_all exited (child_results e (check_calls s0) packages)"
    and opt: "list_all exited
                (child_results e (check_calls s0 @ map (pip_install e) packages) optional_packages)"
  shows "drop (length (stdout s0) + 14) (stdout (snd (main e s0))) =
     (newline # replicate 40 CHR ''='') #
     (if failed_of packages (child_results e (check_calls s0) packages) = [] then success_block
      else failure_block (failed_of packages (child_results e (check_calls s0) packages)))"
proof -
  let ?pre = "stdout s0
         @ [''CityWISE ML Dependencies Installation'', replicate 40 CHR ''='', version_line e,
            newline # ''Installing required packages...'']
         @ concat (map2 (package_line e) packages (child_results e (check_calls s0) packages))
         @ [newline # ''Installing optional packages...'']
         @ concat (map2 (package_line e) optional_packages
             (child_results e (check_calls s0 @ map (pip_install e) packages) optional_packages))"
  let ?post = "(newline # replicate 40 CHR ''='') #
     (if failed_of packages (child_results e (check_calls s0) packages) = [] then success_block
      else failure_block (failed_of packages (child_results e (check_calls s0) packages)))"
  have len: "length ?pre = length (stdout s0) + 14"
    using req opt by (simp add: length_package_lines)
  have "stdout (snd (main e s0)) = ?pre @ ?post"
    by (simp add: main_complete [OF gate req opt])
  then have "drop (length (stdout s0) + 14) (stdout (snd (main e s0))) =
      drop (length ?pre) (?pre @ ?post)"
    using len by simp
  also have "\<dots> = ?post"
    by (rule append_eq_conv_conj [THEN iffD1, THEN conjunct2, symmetric]) (rule refl)
  finally show ?thesis .
qed

text \<open>Every printed text that starts with a rule is a banner.\<close>

lemma drop_newline_banner:
  "dropWhile (\<lambda>c. c = newline) (newline # replicate 40 CHR ''='') = replicate 40 CHR ''=''"
  by (simp add: banner_Cons newline_def)

lemma drop_banner:
  "dropWhile (\<lambda>c. c = newline) (replicate 40 CHR ''='') = replicate 40 CHR ''=''"
  by (simp add: banner_Cons newline_def)

lemma rules_are_banners:
  assumes "text \<in> set (stdout (snd (script e)))" and "starts_with_rule text"
  shows "dropWhile (\<lambda>c. c = newline) text = replicate 40 CHR ''=''"
proof -
  from assms have "text \<in> set (filter starts_with_rule (stdout (snd (script e))))"
    by simp
  then have "text = replicate 40 CHR ''='' \<or> text = newline # replicate 40 CHR ''=''"
    using filter_rule_main [of e initial] by (simp add: script_def split: if_splits)
  then show ?thesis
    using drop_banner drop_newline_banner by auto
qed

subsection \<open>Two runs compared\<close>

lemma child_results_version_update:
  "child_results (e\<lparr>sys_version_info := v\<rparr>) h ps = child_results e h ps"
  by (induction ps arbitrary: h) (simp_all add: pip_install_def)

lemma gate_passes_child_update [simp]: "gate_passes (e\<lparr>child := c\<rparr>) = gate_passes e"
  by (simp add: gate_passes_iff)

lemma pip_install_child_update [simp]: "pip_install (e\<lparr>child := c\<rparr>) = pip_install e"
  by (rule ext) (simp add: pip_install_def)

lemma package_line_child_update [simp]:
  "package_line (e\<lparr>child := c\<rparr>) p r = package_line e p r"
  by (cases r) simp_all

lemma version_line_child_update [simp]: "version_line (e\<lparr>child := c\<rparr>) = version_line e"
  by (simp add: version_line_def)

lemma main_fst:
  assumes gate: "gate_passes e"
  shows "fst (main e s0) =
    (case first_raise (child_results e (check_calls s0) (packages @ optional_packages)) of
       Some x \<Rightarrow> Inl (Other x)
     | None \<Rightarrow>
         if failed_of packages (child_results e (check_calls s0) packages) = [] then Inr ()
         else Inl (SystemExit 1))"
proof (cases "child_results e (check_calls s0) packages" rule: first_raise_cases)
  case 1
  note req = this
  then have none: "first_raise (child_results e (check_calls s0) packages) = None"
    by (simp add: first_raise_None)
  show ?thesis
  proof (cases "child_results e (check_calls s0 @ map (pip_install e) packages) optional_packages"
      rule: first_raise_cases)
    case 1
    then have "first_raise
        (child_results e (check_calls s0 @ map (pip_install e) packages) optional_packages) = None"
      by (simp add: first_raise_None)
    then show ?thesis
      using req 1 none
      by (simp add: main_complete [OF gate] child_results_append first_raise_append)
  next
    case (2 x)
    then show ?thesis
      using req none
      by (simp add: main_raise_optional [OF gate] child_results_append first_raise_append)
  qed
next
  case (2 x)
  then show ?thesis
    by (simp add: main_raise_required [OF gate] child_results_append first_raise_append)
qed

lemma attempted_gt:
  "list_all exited (take n rs) \<Longrightarrow> n < length rs \<Longrightarrow> n < attempted rs"
proof (induction rs arbitrary: n rule: attempted.induct)
  case 1
  then show ?case by simp
next
  case (2 retcode rs)
  then show ?case by (cases n) simp_all
next
  case (3 x rs)
  then show ?case by (cases n) simp_all
qed

lemma failed_of_nth:
  "i < length ps \<Longrightarrow> length rs = length ps \<Longrightarrow> \<not> succeeded (rs ! i) \<Longrightarrow>
     ps ! i \<in> set (failed_of ps rs)"
proof (induction ps rs arbitrary: i rule: list_induct2')
  case (4 p ps r rs)
  then show ?case
    by (cases i) (auto simp: failed_of_def)
qed simp_all

lemma exit_status_fst:
  "fst p = fst q \<Longrightarrow> uncaught_status e = uncaught_status e' \<Longrightarrow>
     exit_status e p = exit_status e' q"
  by (cases "(e, p)" rule: exit_status.cases; cases "(e', q)" rule: exit_status.cases) auto

lemma success_lines:
  "list_all succeeded rs \<Longrightarrow> length rs = length ps \<Longrightarrow>
     concat (map2 (package_line e) ps rs) =
       map (\<lambda>package. check_mark @ '' Successfully installed '' @ package) ps"
proof (induction ps rs rule: list_induct2')
  case (4 p ps r rs)
  then show ?case by (cases r) simp_all
qed simp_all

lemma packages_nth_4:
  "packages ! 4 = ''pickle5>=0.0.11; python_version<'' @ [CHR 0x27] @ ''3.8'' @ [CHR 0x27]"
  by (simp add: packages_def)

section \<open>The claims\<close>




text \<open>
  C2. For every version triple, \<open>check_python_version\<close> returns true exactly when the major
  version is above 3, or is 3 with a minor version of at least 7; it returns false for
  3.6.9 and true for 3.7.0 and 4.0.0.
\<close>

theorem check_python_version_result:
  "(fst (check_python_version (e\<lparr>sys_version_info := \<lparr>major = a, minor = b, micro = c\<rparr>\<rparr>) s)
      \<longleftrightarrow> 3 < a \<or> (a = 3 \<and> 7 \<le> b)) \<and>
   fst (check_python_version (e\<lparr>sys_version_info := \<lparr>major = 3, minor = 6, micro = 9\<rparr>\<rparr>) s)
     = False \<and>
   fst (check_python_version (e\<lparr>sys_version_info := \<lparr>major = 3, minor = 7, micro = 0\<rparr>\<rparr>) s)
     = True \<and>
   fst (check_python_version (e\<lparr>sys_version_info := \<lparr>major = 4, minor = 0, micro = 0\<rparr>\<rparr>) s)
     = True"
  by (auto simp: check_python_version_def Let_def)

text \<open>
  C3, as the code has it. Whatever exit statuses the installs of a list of packages end
  with, the loop over the required packages starts a child for each package of the
  list, in order, and appends to \<open>failed_packages\<close> exactly the packages whose status is
  not 0, in list order. In a run of the script whose installs all end with an exit
  status, the first five commands are those of the required packages,
  \<open>failed_packages\<close> is that subsequence of the required list, and when it is not empty
  the run ends with \<^verbatim>\<open>SystemExit(1)\<close> after one block that lists all of them between
  its heading and its two closing lines.
\<close>

theorem required_failures_collected:
  "(child_results e (check_calls s) ps = map Exit codes \<longrightarrow>
      required_loop e ps s =
        (Inr (),
         s\<lparr>stdout := stdout s @ concat (map2 (package_line e) ps (map Exit codes)),
           check_calls := check_calls s @ map (pip_install e) ps,
           failed_packages := failed_packages s @
             map fst (filter (\<lambda>(package, retcode). retcode \<noteq> 0) (zip ps codes))\<rparr>)) \<and>
   (gate_passes e \<and> child_results e [] packages = map Exit codes \<and>
    list_all exited (child_results e (map (pip_install e) packages) optional_packages) \<longrightarrow>
      take 5 (check_calls (snd (script e))) = map (pip_install e) packages \<and>
      failed_packages (snd (script e)) =
        map fst (filter (\<lambda>(package, retcode). retcode \<noteq> 0) (zip packages codes)) \<and>
      (failed_packages (snd (script e)) \<noteq> [] \<longrightarrow>
         fst (script e) = Inl (SystemExit 1) \<and>
         drop 14 (stdout (snd (script e))) =
           [newline # replicate 40 CHR ''='',
            warning_sign @ ''  Some required packages failed to install:'']
           @ map (\<lambda>package. ''   - '' @ package) (failed_packages (snd (script e)))
           @ [newline # ''The ML models may not work properly without these packages.'',
              ''Please install them manually or check your Python environment.'']))"
proof (intro conjI impI)
  assume a: "child_results e (check_calls s) ps = map Exit codes"
  then have "list_all exited (child_results e (check_calls s) ps)"
    by (simp add: list_all_iff)
  then show "required_loop e ps s =
        (Inr (),
         s\<lparr>stdout := stdout s @ concat (map2 (package_line e) ps (map Exit codes)),
           check_calls := check_calls s @ map (pip_install e) ps,
           failed_packages := failed_packages s @
             map fst (filter (\<lambda>(package, retcode). retcode \<noteq> 0) (zip ps codes))\<rparr>)"
    using a by (simp add: required_loop_exited failed_of_Exit)
next
  assume a: "gate_passes e \<and> child_results e [] packages = map Exit codes \<and>
    list_all exited (child_results e (map (pip_install e) packages) optional_packages)"
  then have gate: "gate_passes e"
    and req: "list_all exited (child_results e (check_calls initial) packages)"
    and opt: "list_all exited
        (child_results e (check_calls initial @ map (pip_install e) packages) optional_packages)"
    by (simp_all add: list_all_iff)
  have failed: "failed_of packages (child_results e [] packages) =
      map fst (filter (\<lambda>(package, retcode). retcode \<noteq> 0) (zip packages codes))"
    using a by (simp add: failed_of_Exit)
  show "take 5 (check_calls (snd (script e))) = map (pip_install e) packages"
    using req opt by (simp add: script_def main_complete [OF gate])
  show f: "failed_packages (snd (script e)) =
      map fst (filter (\<lambda>(package, retcode). retcode \<noteq> 0) (zip packages codes))"
    using req opt failed by (simp add: script_def main_complete [OF gate])
  {
    assume ne: "failed_packages (snd (script e)) \<noteq> []"
    then have ne': "failed_of packages (child_results e [] packages) \<noteq> []"
      using f failed by simp
    show "fst (script e) = Inl (SystemExit 1)"
      using req opt ne' by (simp add: script_def main_complete [OF gate])
    show "drop 14 (stdout (snd (script e))) =
           [newline # replicate 40 CHR ''='',
            warning_sign @ ''  Some required packages failed to install:'']
           @ map (\<lambda>package. ''   - '' @ package) (failed_packages (snd (script e)))
           @ [newline # ''The ML models may not work properly without these packages.'',
              ''Please install them manually or check your Python environment.'']"
      using main_complete_stdout [OF gate req opt] ne' f failed
      by (simp add: script_def failure_block_def)
  }
qed

text \<open>The install of pandas fails, all others succeed.\<close>

theorem required_failures_collected_witness:
  "fst (required_loop env_pandas_fails packages initial) = Inr () \<and>
   failed_packages (snd (required_loop env_pandas_fails packages initial)) = [''pandas>=1.3.0''] \<and>
   length (check_calls (snd (required_loop env_pandas_fails packages initial))) = 5 \<and>
   failed_packages (snd (script env_pandas_fails)) = [''pandas>=1.3.0''] \<and>
   fst (script env_pandas_fails) = Inl (SystemExit 1) \<and>
   drop 14 (stdout (snd (script env_pandas_fails))) =
     [newline # replicate 40 CHR ''='',
      warning_sign @ ''  Some required packages failed to install:'',
      ''   - pandas>=1.3.0'',
      newline # ''The ML models may not work properly without these packages.'',
      ''Please install them manually or check your Python environment.'']"
proof -
  have h: "child_results env_pandas_fails (check_calls initial) packages =
      map Exit [0, 0, 1, 0, 0]"
    by (simp add: env_defs packages_def pip_install_def)
  have g: "gate_passes env_pandas_fails \<and>
      child_results env_pandas_fails [] packages = map Exit [0, 0, 1, 0, 0] \<and>
      list_all exited
        (child_results env_pandas_fails (map (pip_install env_pandas_fails) packages)
           optional_packages)"
    by (simp add: gate_passes_iff env_defs packages_def optional_packages_def pip_install_def)
  note loop = required_failures_collected
    [of env_pandas_fails initial packages "[0, 0, 1, 0, 0]", THEN conjunct1, rule_format, OF h]
  note run = required_failures_collected
    [of env_pandas_fails initial packages "[0, 0, 1, 0, 0]", THEN conjunct2, rule_format, OF g]
  show ?thesis
    using run by (simp only: loop) (simp add: packages_def initial_def)
qed

text \<open>
  C3 as it is stated does not hold. When the install of pandas fails and the child of
  the first optional install cannot be started, \<open>failed_packages\<close> holds pandas but the
  run ends with the exception after ten printed texts: the failed specifier is never
  reported. When the child of the first required install cannot be started, the loop
  over the required packages ends there, with one of the five specifiers attempted.
\<close>

theorem required_failures_not_reported:
  "gate_passes env_pandas_fails_tensorflow_raises \<and>
   failed_packages (snd (script env_pandas_fails_tensorflow_raises)) = [''pandas>=1.3.0''] \<and>
   fst (script env_pandas_fails_tensorflow_raises) = Inl (Other ''OSError'') \<and>
   length (stdout (snd (script env_pandas_fails_tensorflow_raises))) = 10 \<and>
   ''   - pandas>=1.3.0'' \<notin> set (stdout (snd (script env_pandas_fails_tensorflow_raises))) \<and>
   fst (required_loop env_numpy_raises packages initial) = Inl (Other ''OSError'') \<and>
   check_calls (snd (required_loop env_numpy_raises packages initial)) =
     [[''/usr/bin/python3'', ''-m'', ''pip'', ''install'', ''numpy>=1.21.0'']]"
proof -
  let ?e = env_pandas_fails_tensorflow_raises
  have gate: "gate_passes ?e"
    by (simp add: gate_passes_iff env_defs)
  have req: "list_all exited (child_results ?e (check_calls initial) packages)"
    by (simp add: env_defs packages_def pip_install_def)
  have raise: "first_raise
      (child_results ?e (check_calls initial @ map (pip_install ?e) packages) optional_packages)
        = Some ''OSError''"
    by (simp add: env_defs packages_def optional_packages_def pip_install_def)
  have run: "script ?e =
      (Inl (Other ''OSError''), snd (optional_loop ?e optional_packages (before_optional ?e initial)))"
    unfolding script_def by (rule main_raise_optional [OF gate req raise])
  have before: "before_optional ?e initial =
      \<lparr>stdout = [''CityWISE ML Dependencies Installation'', replicate 40 CHR ''='',
                  version_line ?e, newline # ''Installing required packages...'',
                  check_mark @ '' Successfully installed numpy>=1.21.0'',
                  check_mark @ '' Successfully installed scikit-learn>=1.0.0'',
                  ballot_x @ '' Failed to install pandas>=1.3.0: Command returned non-zero exit status'',
                  check_mark @ '' Successfully installed joblib>=1.1.0'',
                  check_mark @ '' Successfully installed pickle5>=0.0.11; python_version<''
                    @ [CHR 0x27] @ ''3.8'' @ [CHR 0x27],
                  newline # ''Installing optional packages...''],
       check_calls = map (pip_install ?e) packages,
       failed_packages = [''pandas>=1.3.0'']\<rparr>"
  proof -
    have "list_all exited
        (child_results ?e (check_calls (before_required ?e initial)) packages)"
      using req by simp
    note loop = required_loop_exited [OF this]
    show ?thesis
      unfolding before_optional_def loop
      by (simp add: before_required_def print_def initial_def failed_of_def env_defs
          packages_def pip_install_def)
  qed
  have opt: "snd (optional_loop ?e optional_packages (before_optional ?e initial)) =
      (before_optional ?e initial)
        \<lparr>check_calls := map (pip_install ?e) packages @ [pip_install ?e ''tensorflow>=2.8.0'']\<rparr>"
    unfolding before
    by (simp add: optional_packages_def install_package_Raises env_defs pip_install_def)
  have "fst (required_loop env_numpy_raises packages initial) = Inl (Other ''OSError'') \<and>
      check_calls (snd (required_loop env_numpy_raises packages initial)) =
        [[''/usr/bin/python3'', ''-m'', ''pip'', ''install'', ''numpy>=1.21.0'']]"
    by (simp add: packages_def install_package_Raises env_defs pip_install_def initial_def)
  moreover have "script ?e =
      (Inl (Other ''OSError''),
       (before_optional ?e initial)
         \<lparr>check_calls := map (pip_install ?e) packages @ [pip_install ?e ''tensorflow>=2.8.0'']\<rparr>)"
    by (simp only: run opt)
  ultimately show ?thesis
    using gate
    by (simp add: before check_mark_def ballot_x_def newline_def banner_Cons version_line_def)
qed

text \<open>
  C4, as the code has it. In every run that passes the version gate, the commands run
  are those of the required list followed by those of the optional list, each in its
  declared order and once, up to and including the first whose \<^verbatim>\<open>check_call\<close> raises an
  exception other than \<^verbatim>\<open>CalledProcessError\<close>; when there is no such exception they are
  the whole of both lists.
\<close>

theorem install_attempts:
  assumes "gate_passes e"
  shows "check_calls (snd (script e)) =
           map (pip_install e)
             (take (attempted (child_results e [] (packages @ optional_packages)))
                (packages @ optional_packages)) \<and>
         (list_all exited (child_results e [] (packages @ optional_packages)) \<longrightarrow>
            check_calls (snd (script e)) = map (pip_install e) (packages @ optional_packages) \<and>
            map last (check_calls (snd (script e))) = packages @ optional_packages)"
proof -
  have "map last (map (pip_install e) ps) = ps" for ps
    by (induction ps) (simp_all add: pip_install_def)
  then show ?thesis
    using main_calls [OF assms, of initial]
    by (simp add: script_def attempted_exited del: map_append)
qed

text \<open>The install of pandas fails; all nine packages are attempted, in order.\<close>

theorem install_attempts_witness:
  "map last (check_calls (snd (script env_pandas_fails))) =
     [''numpy>=1.21.0'', ''scikit-learn>=1.0.0'', ''pandas>=1.3.0'', ''joblib>=1.1.0'',
      ''pickle5>=0.0.11; python_version<'' @ [CHR 0x27] @ ''3.8'' @ [CHR 0x27],
      ''tensorflow>=2.8.0'', ''keras>=2.8.0'', ''matplotlib>=3.5.0'', ''seaborn>=0.11.0'']"
  using install_attempts [of env_pandas_fails]
  by (simp add: gate_passes_iff env_defs packages_def optional_packages_def pip_install_def)

text \<open>
  C4 as it is stated does not hold: on Python 3.9.0, when the child of the first required
  install cannot be started, that install is the only attempt of the run.
\<close>

theorem install_attempts_cut_short:
  "gate_passes env_numpy_raises \<and>
   check_calls (snd (script env_numpy_raises)) =
     [[''/usr/bin/python3'', ''-m'', ''pip'', ''install'', ''numpy>=1.21.0'']]"
  using main_calls [of env_numpy_raises initial]
  by (simp add: script_def gate_passes_iff env_defs packages_def optional_packages_def
      pip_install_def)

text \<open>
  C5. When the version gate fails, the run prints the title, the banner and the version
  error, ends with \<^verbatim>\<open>SystemExit(1)\<close>, so with exit status 1, and has started no child
  process: \<open>install_package\<close> was never called.
\<close>

theorem version_gate_fails:
  assumes "\<not> gate_passes e"
  shows "script e =
           (Inl (SystemExit 1),
            \<lparr>stdout = [''CityWISE ML Dependencies Installation'', replicate 40 CHR ''='',
                        ''Error: Python 3.7 or higher is required''],
             check_calls = [], failed_packages = []\<rparr>) \<and>
         exit_status e (script e) = 1 \<and>
         length (check_calls (snd (script e))) = 0"
  using assms by (simp add: script_def main_gate_fails initial_def)

text \<open>On Python 3.6.9.\<close>

theorem version_gate_fails_witness:
  "exit_status env_old (script env_old) = 1 \<and> check_calls (snd (script env_old)) = [] \<and>
   last (stdout (snd (script env_old))) = ''Error: Python 3.7 or higher is required''"
  using version_gate_fails [of env_old]
  by (simp add: gate_passes_iff env_defs)

text \<open>
  C6, as the code has it. For every package, \<open>install_package\<close> runs one child, with the
  command \<^verbatim>\<open>[sys.executable, "-m", "pip", "install", package]\<close>. When the child ends with
  an exit status, \<open>install_package\<close> returns a boolean, true exactly when the status is
  0, and has printed one line: the line with the check mark on success, the line with
  the cross and the text of the error otherwise.
\<close>

theorem install_package_result:
  "check_calls (snd (install_package e package s)) =
     check_calls s @ [[sys_executable e, ''-m'', ''pip'', ''install'', package]] \<and>
   (child e (check_calls s) [sys_executable e, ''-m'', ''pip'', ''install'', package] = Exit retcode
    \<longrightarrow> install_package e package s =
          (Inr (retcode = 0),
           s\<lparr>check_calls := check_calls s @ [[sys_executable e, ''-m'', ''pip'', ''install'', package]],
             stdout := stdout s @
               [if retcode = 0 then check_mark @ '' Successfully installed '' @ package
                else ballot_x @ '' Failed to install '' @ package @ '': ''
                     @ exc_str e retcode [sys_executable e, ''-m'', ''pip'', ''install'', package]]\<rparr>))"
proof -
  have calls: "check_calls (snd (install_package e package s)) =
      check_calls s @ [pip_install e package]"
    by (cases "child e (check_calls s) (pip_install e package)")
       (simp_all add: install_package_Exit install_package_Raises)
  have res: "install_package e package s =
      (Inr (retcode = 0),
       s\<lparr>check_calls := check_calls s @ [pip_install e package],
         stdout := stdout s @
           [if retcode = 0 then check_mark @ '' Successfully installed '' @ package
            else ballot_x @ '' Failed to install '' @ package @ '': ''
                 @ exc_str e retcode (pip_install e package)]\<rparr>)"
    if "child e (check_calls s) (pip_install e package) = Exit retcode"
    using that by (simp add: install_package_Exit)
  show ?thesis
    using calls res unfolding pip_install_def by blast
qed

text \<open>The install of pandas ends with status 1, the install of joblib with status 0.\<close>

theorem install_package_result_witness:
  "install_package env_pandas_fails ''pandas>=1.3.0'' initial =
     (Inr False,
      \<lparr>stdout = [ballot_x @ '' Failed to install pandas>=1.3.0: Command returned non-zero exit status''],
       check_calls = [[''/usr/bin/python3'', ''-m'', ''pip'', ''install'', ''pandas>=1.3.0'']],
       failed_packages = []\<rparr>) \<and>
   install_package env_pandas_fails ''joblib>=1.1.0'' initial =
     (Inr True,
      \<lparr>stdout = [check_mark @ '' Successfully installed joblib>=1.1.0''],
       check_calls = [[''/usr/bin/python3'', ''-m'', ''pip'', ''install'', ''joblib>=1.1.0'']],
       failed_packages = []\<rparr>)"
  using install_package_result [of env_pandas_fails "''pandas>=1.3.0''" initial 1]
    install_package_result [of env_pandas_fails "''joblib>=1.1.0''" initial 0]
  by (simp add: env_defs initial_def)

text \<open>
  C6 as it is stated does not hold: when the child cannot be started, \<open>install_package\<close>
  raises the \<^verbatim>\<open>OSError\<close> to its caller and delivers no boolean.
\<close>

theorem install_package_raises:
  "fst (install_package env_numpy_raises ''numpy>=1.21.0'' initial) = Inl (Other ''OSError'')"
  by (simp add: install_package_Raises env_defs pip_install_def)

text \<open>
  C7, as the code has it. The loop over the optional packages leaves \<open>failed_packages\<close>
  as it was, whatever its installs do. Take two runs on the same interpreter that pass
  the version gate, differ in what the children do, have the same results of the
  required installs, and in which every install returns: they end the same way, with
  the same exit status, the same \<open>failed_packages\<close>, the same first ten printed texts
  (up to the heading of the optional pass) and the same texts from the fifteenth on
  (the banner and the final status block). They differ in the four lines of the
  optional packages only.
\<close>

theorem optional_pass_frame:
  "failed_packages (snd (optional_loop e ps s)) = failed_packages s \<and>
   (gate_passes e \<and>
    list_all exited (child_results e [] (packages @ optional_packages)) \<and>
    list_all exited (child_results (e\<lparr>child := c\<rparr>) [] (packages @ optional_packages)) \<and>
    child_results (e\<lparr>child := c\<rparr>) [] packages = child_results e [] packages \<longrightarrow>
      fst (script (e\<lparr>child := c\<rparr>)) = fst (script e) \<and>
      exit_status (e\<lparr>child := c\<rparr>) (script (e\<lparr>child := c\<rparr>)) = exit_status e (script e) \<and>
      failed_packages (snd (script (e\<lparr>child := c\<rparr>))) = failed_packages (snd (script e)) \<and>
      take 10 (stdout (snd (script (e\<lparr>child := c\<rparr>)))) = take 10 (stdout (snd (script e))) \<and>
      drop 14 (stdout (snd (script (e\<lparr>child := c\<rparr>)))) = drop 14 (stdout (snd (script e))))"
proof (intro conjI impI)
  show "failed_packages (snd (optional_loop e ps s)) = failed_packages s"
    by (rule optional_loop_failed_packages)
next
  assume a: "gate_passes e \<and>
    list_all exited (child_results e [] (packages @ optional_packages)) \<and>
    list_all exited (child_results (e\<lparr>child := c\<rparr>) [] (packages @ optional_packages)) \<and>
    child_results (e\<lparr>child := c\<rparr>) [] packages = child_results e [] packages"
  let ?e = "e\<lparr>child := c\<rparr>"
  from a have gate: "gate_passes e" and gate': "gate_passes ?e"
    by simp_all
  from a have req: "list_all exited (child_results e (check_calls initial) packages)"
    and opt: "list_all exited
        (child_results e (check_calls initial @ map (pip_install e) packages) optional_packages)"
    by (simp_all add: child_results_append)
  from a have req': "list_all exited (child_results ?e (check_calls initial) packages)"
    and opt': "list_all exited
        (child_results ?e (check_calls initial @ map (pip_install ?e) packages) optional_packages)"
    by (simp_all add: child_results_append)
  from a have same: "child_results ?e [] packages = child_results e [] packages"
    by simp
  show "fst (script ?e) = fst (script e)"
    using same by (simp add: script_def main_complete [OF gate req opt]
        main_complete [OF gate' req' opt'])
  then show "exit_status ?e (script ?e) = exit_status e (script e)"
    by (rule exit_status_fst) simp
  show "failed_packages (snd (script ?e)) = failed_packages (snd (script e))"
    using same by (simp add: script_def main_complete [OF gate req opt]
        main_complete [OF gate' req' opt'])
  show "drop 14 (stdout (snd (script ?e))) = drop 14 (stdout (snd (script e)))"
    using main_complete_stdout [OF gate req opt] main_complete_stdout [OF gate' req' opt'] same
    by (simp add: script_def)
  have len: "length (concat (map2 (package_line e) packages (child_results e [] packages))) = 5"
    using length_package_lines [of "child_results e [] packages" packages e] req by simp
  show "take 10 (stdout (snd (script ?e))) = take 10 (stdout (snd (script e)))"
    using same len
    by (simp add: script_def main_complete [OF gate req opt] main_complete [OF gate' req' opt'])
qed

text \<open>A run in which the install of keras fails, against one in which all succeed.\<close>

theorem optional_pass_frame_witness:
  "exit_status (env_ok\<lparr>child := child env_keras_fails\<rparr>)
     (script (env_ok\<lparr>child := child env_keras_fails\<rparr>)) = exit_status env_ok (script env_ok) \<and>
   drop 14 (stdout (snd (script (env_ok\<lparr>child := child env_keras_fails\<rparr>)))) =
     drop 14 (stdout (snd (script env_ok)))"
  using optional_pass_frame [of env_ok _ _ "child env_keras_fails"]
  by (simp add: gate_passes_iff env_defs packages_def optional_packages_def pip_install_def)

text \<open>
  C7 as it is stated does not hold: two runs with the same results of the required
  installs, which all succeed; in one the child of the first optional install cannot be
  started, and the exit status is 1 instead of 0.
\<close>

theorem optional_pass_raises:
  "child_results env_tensorflow_raises [] packages = child_results env_ok [] packages \<and>
   exit_status env_ok (script env_ok) = 0 \<and>
   exit_status env_tensorflow_raises (script env_tensorflow_raises) = 1"
  by (simp add: script_def main_exit_status gate_passes_iff env_defs packages_def
      optional_packages_def pip_install_def)

text \<open>
  C8. In every run, the printed texts that begin with \<open>=\<close>, leading newlines apart, are
  the banners, and each is a line of exactly forty \<open>=\<close>: the one under the title, and in
  a run that reaches its report a second one, printed after an empty line. In a run in
  which the gate passes, every required install succeeds and every optional install
  returns, \<open>main\<close> returns, and the texts after the second banner are the success
  line, the three lines that name \<^verbatim>\<open>air_quality_predictor.pkl\<close>,
  \<^verbatim>\<open>healthcare_priority_model.h5\<close> and \<^verbatim>\<open>healthcare_scaler.pkl\<close> under their heading, and
  the heading and the command of the verification snippet.
\<close>

theorem banners_and_closing_block:
  "filter starts_with_rule (stdout (snd (script e))) =
     (if gate_passes e \<and> list_all exited (child_results e [] (packages @ optional_packages))
      then [replicate 40 CHR ''='', newline # replicate 40 CHR ''='']
      else [replicate 40 CHR ''='']) \<and>
   (\<forall>printed \<in> set (stdout (snd (script e))).
      starts_with_rule printed \<longrightarrow>
        dropWhile (\<lambda>c. c = newline) printed = replicate 40 CHR ''='') \<and>
   (gate_passes e \<and> list_all succeeded (child_results e [] packages) \<and>
    list_all exited (child_results e (map (pip_install e) packages) optional_packages) \<longrightarrow>
      fst (script e) = Inr () \<and>
      take 9 (stdout (snd (script e))) =
        [''CityWISE ML Dependencies Installation'', replicate 40 CHR ''='', version_line e,
         newline # ''Installing required packages...'']
        @ map (\<lambda>package. check_mark @ '' Successfully installed '' @ package) packages \<and>
      drop 14 (stdout (snd (script e))) =
        [newline # replicate 40 CHR ''='',
         check_box @ '' All required ML dependencies installed successfully!'',
         newline # ''You can now use the trained ML models in the CityWISE platform:'',
         ''   - Air Quality Predictor (air_quality_predictor.pkl)'',
         ''   - Healthcare Priority Model (healthcare_priority_model.h5)'',
         ''   - Healthcare Scaler (healthcare_scaler.pkl)'',
         newline # ''To test the installation, run:'',
         ''   python -c '' @ [CHR 0x22] @ ''import sklearn, numpy, pandas; print(''
           @ [CHR 0x27] @ ''ML dependencies ready!'' @ [CHR 0x27] @ '')'' @ [CHR 0x22]])"
proof (intro conjI impI ballI)
  fix printed
  assume "printed \<in> set (stdout (snd (script e)))" and "starts_with_rule printed"
  then show "dropWhile (\<lambda>c. c = newline) printed = replicate 40 CHR ''=''"
    by (rule rules_are_banners)
next
  show "filter starts_with_rule (stdout (snd (script e))) =
     (if gate_passes e \<and> list_all exited (child_results e [] (packages @ optional_packages))
      then [replicate 40 CHR ''='', newline # replicate 40 CHR ''='']
      else [replicate 40 CHR ''=''])"
    using filter_rule_main [of e initial] by (simp add: script_def)
next
  assume a: "gate_passes e \<and> list_all succeeded (child_results e [] packages) \<and>
    list_all exited (child_results e (map (pip_install e) packages) optional_packages)"
  then have gate: "gate_passes e"
    and suc: "list_all succeeded (child_results e [] packages)"
    and req: "list_all exited (child_results e (check_calls initial) packages)"
    and opt: "list_all exited
        (child_results e (check_calls initial @ map (pip_install e) packages) optional_packages)"
    by (simp_all add: succeeded_exited)
  have none: "failed_of packages (child_results e [] packages) = []"
    using suc by (simp add: failed_of_Nil_iff)
  show "fst (script e) = Inr ()"
    using none by (simp add: script_def main_complete [OF gate req opt])
  show "drop 14 (stdout (snd (script e))) =
        [newline # replicate 40 CHR ''='',
         check_box @ '' All required ML dependencies installed successfully!'',
         newline # ''You can now use the trained ML models in the CityWISE platform:'',
         ''   - Air Quality Predictor (air_quality_predictor.pkl)'',
         ''   - Healthcare Priority Model (healthcare_priority_model.h5)'',
         ''   - Healthcare Scaler (healthcare_scaler.pkl)'',
         newline # ''To test the installation, run:'',
         ''   python -c '' @ [CHR 0x22] @ ''import sklearn, numpy, pandas; print(''
           @ [CHR 0x27] @ ''ML dependencies ready!'' @ [CHR 0x27] @ '')'' @ [CHR 0x22]]"
    using main_complete_stdout [OF gate req opt] none
    by (simp add: script_def success_block_def)
  show "take 9 (stdout (snd (script e))) =
        [''CityWISE ML Dependencies Installation'', replicate 40 CHR ''='', version_line e,
         newline # ''Installing required packages...'']
        @ map (\<lambda>package. check_mark @ '' Successfully installed '' @ package) packages"
    using success_lines [OF suc, of packages e]
    by (simp add: script_def main_complete [OF gate req opt])
qed

text \<open>
  A run in which an optional install fails, with both banners and the closing block, and
  a run cut short in the required pass, with the first banner only.
\<close>

theorem banners_and_closing_block_witness:
  "filter starts_with_rule (stdout (snd (script env_keras_fails))) =
     [replicate 40 CHR ''='', newline # replicate 40 CHR ''=''] \<and>
   filter starts_with_rule (stdout (snd (script env_numpy_raises))) = [replicate 40 CHR ''=''] \<and>
   fst (script env_keras_fails) = Inr () \<and>
   take 4 (stdout (snd (script env_keras_fails))) =
     [''CityWISE ML Dependencies Installation'', replicate 40 CHR ''='',
      check_mark @ '' Python 3.9.0 detected'', newline # ''Installing required packages...''] \<and>
   drop 14 (stdout (snd (script env_keras_fails))) =
     [newline # replicate 40 CHR ''='',
      check_box @ '' All required ML dependencies installed successfully!'',
      newline # ''You can now use the trained ML models in the CityWISE platform:'',
      ''   - Air Quality Predictor (air_quality_predictor.pkl)'',
      ''   - Healthcare Priority Model (healthcare_priority_model.h5)'',
      ''   - Healthcare Scaler (healthcare_scaler.pkl)'',
      newline # ''To test the installation, run:'',
      ''   python -c '' @ [CHR 0x22] @ ''import sklearn, numpy, pandas; print(''
        @ [CHR 0x27] @ ''ML dependencies ready!'' @ [CHR 0x27] @ '')'' @ [CHR 0x22]]"
proof -
  have v: "version_line env_keras_fails = check_mark @ '' Python 3.9.0 detected''"
    by code_simp
  have t: "take 4 xs = take 4 (take 9 xs)" for xs :: "string list"
    by simp
  have hyps: "gate_passes env_keras_fails"
    "list_all succeeded (child_results env_keras_fails [] packages)"
    "list_all exited
       (child_results env_keras_fails (map (pip_install env_keras_fails) packages) optional_packages)"
    "list_all exited (child_results env_keras_fails [] (packages @ optional_packages))"
    "\<not> list_all exited (child_results env_numpy_raises [] (packages @ optional_packages))"
    by (simp_all add: gate_passes_iff env_defs packages_def optional_packages_def pip_install_def)
  show ?thesis
    using banners_and_closing_block [of env_keras_fails]
      banners_and_closing_block [of env_numpy_raises] hyps
    by (simp only: t [of "stdout (snd (script env_keras_fails))"] v) simp
qed

text \<open>
  C9. \<open>install_package\<close> catches \<^verbatim>\<open>CalledProcessError\<close> only. When \<^verbatim>\<open>check_call\<close> raises
  anything else, \<open>install_package\<close> raises it too, having printed nothing and returned no
  boolean; a nonzero exit status, in contrast, is caught and returned as false. In a run
  that passes the version gate, the first such exception of an install, required or
  optional, ends the whole program: nothing in \<open>main\<close> catches it, and it reaches the
  top level.
\<close>

theorem other_exception_propagates:
  "(child e (check_calls s) (pip_install e package) = Raises x \<longrightarrow>
      install_package e package s =
        (Inl (Other x), s\<lparr>check_calls := check_calls s @ [pip_install e package]\<rparr>)) \<and>
   (child e (check_calls s) (pip_install e package) = Exit retcode \<longrightarrow>
      fst (install_package e package s) = Inr (retcode = 0)) \<and>
   (gate_passes e \<and> first_raise (child_results e [] (packages @ optional_packages)) = Some y \<longrightarrow>
      fst (script e) = Inl (Other y))"
proof (intro conjI impI)
  assume "child e (check_calls s) (pip_install e package) = Raises x"
  then show "install_package e package s =
      (Inl (Other x), s\<lparr>check_calls := check_calls s @ [pip_install e package]\<rparr>)"
    by (rule install_package_Raises)
next
  assume "child e (check_calls s) (pip_install e package) = Exit retcode"
  then show "fst (install_package e package s) = Inr (retcode = 0)"
    by (simp add: install_package_Exit)
next
  assume a: "gate_passes e \<and> first_raise (child_results e [] (packages @ optional_packages)) = Some y"
  then have gate: "gate_passes e" by simp
  have fst: "fst (script e) = Inl (Other y)"
  proof (cases "child_results e [] packages" rule: first_raise_cases)
    case 1
    then have "first_raise (child_results e [] packages) = None"
      by (simp add: first_raise_None)
    then have "first_raise (child_results e ([] @ map (pip_install e) packages) optional_packages) = Some y"
      using a by (simp add: child_results_append first_raise_append)
    then show ?thesis
      using main_raise_optional [OF gate, of initial y] 1 by (simp add: script_def)
  next
    case (2 z)
    then have "z = y"
      using a by (simp add: child_results_append first_raise_append)
    then show ?thesis
      using main_raise_required [OF gate, of initial y] 2 by (simp add: script_def)
  qed
  then show "fst (script e) = Inl (Other y)" .
qed

text \<open>
  The first required install cannot start its child; a required install exits with
  status 1; the first optional install cannot start its child.
\<close>

theorem other_exception_propagates_witness:
  "install_package env_numpy_raises ''numpy>=1.21.0'' initial =
     (Inl (Other ''OSError''),
      initial\<lparr>check_calls := [[''/usr/bin/python3'', ''-m'', ''pip'', ''install'', ''numpy>=1.21.0'']]\<rparr>) \<and>
   fst (install_package env_pandas_fails ''pandas>=1.3.0'' initial) = Inr False \<and>
   fst (script env_tensorflow_raises) = Inl (Other ''OSError'')"
  using other_exception_propagates [of env_numpy_raises initial "''numpy>=1.21.0''" "''OSError''" _ _]
    other_exception_propagates [of env_pandas_fails initial "''pandas>=1.3.0''" _ 1 _]
    other_exception_propagates [of env_tensorflow_raises _ _ _ _ "''OSError''"]
  by (simp add: gate_passes_iff env_defs packages_def optional_packages_def pip_install_def)

text \<open>
  C10, as the code has it. The fifth required entry is the specifier of pickle5 with its
  marker \<^verbatim>\<open>python_version<'3.8'\<close>. In every run that passes the version gate and whose
  first four installs return, the fifth command is the pip command with exactly this
  string as its last argument. When all required installs return and that of pickle5
  ends with a nonzero status, the specifier is in \<open>failed_packages\<close>, and if the optional
  installs return as well the exit status is 1. The version plays no part in any of
  this: changing it to another version that passes the gate changes neither the
  commands run nor the way \<open>main\<close> ends.
\<close>

theorem marker_passed_verbatim:
  "packages ! 4 = ''pickle5>=0.0.11; python_version<'' @ [CHR 0x27] @ ''3.8'' @ [CHR 0x27] \<and>
   (gate_passes e \<and> list_all exited (take 4 (child_results e [] packages)) \<longrightarrow>
      check_calls (snd (script e)) ! 4 =
        [sys_executable e, ''-m'', ''pip'', ''install'',
         ''pickle5>=0.0.11; python_version<'' @ [CHR 0x27] @ ''3.8'' @ [CHR 0x27]]) \<and>
   (gate_passes e \<and> list_all exited (child_results e [] packages) \<and>
    child_results e [] packages ! 4 = Exit retcode \<and> retcode \<noteq> 0 \<longrightarrow>
      ''pickle5>=0.0.11; python_version<'' @ [CHR 0x27] @ ''3.8'' @ [CHR 0x27]
        \<in> set (failed_packages (snd (script e))) \<and>
      (list_all exited (child_results e (map (pip_install e) packages) optional_packages) \<longrightarrow>
         exit_status e (script e) = 1)) \<and>
   (gate_passes e \<and> gate_passes (e\<lparr>sys_version_info := v\<rparr>) \<longrightarrow>
      check_calls (snd (script (e\<lparr>sys_version_info := v\<rparr>))) = check_calls (snd (script e)) \<and>
      fst (script (e\<lparr>sys_version_info := v\<rparr>)) = fst (script e))"
proof (intro conjI impI)
  show "packages ! 4 = ''pickle5>=0.0.11; python_version<'' @ [CHR 0x27] @ ''3.8'' @ [CHR 0x27]"
    by (rule packages_nth_4)
next
  assume a: "gate_passes e \<and> list_all exited (take 4 (child_results e [] packages))"
  then have gate: "gate_passes e" by simp
  let ?all = "packages @ optional_packages"
  let ?k = "attempted (child_results e [] ?all)"
  have "take 4 (child_results e [] ?all) = take 4 (child_results e [] packages)"
    by (simp add: child_results_append)
  then have "4 < ?k"
    using a attempted_gt [of 4 "child_results e [] ?all"] by simp
  moreover have "check_calls (snd (script e)) = map (pip_install e) (take ?k ?all)"
    using main_calls [OF gate, of initial] by (simp add: script_def)
  ultimately have "check_calls (snd (script e)) ! 4 = pip_install e (?all ! 4)"
    by (simp add: nth_append)
  also have "?all ! 4 = packages ! 4"
    by (simp add: nth_append)
  finally show "check_calls (snd (script e)) ! 4 =
        [sys_executable e, ''-m'', ''pip'', ''install'',
         ''pickle5>=0.0.11; python_version<'' @ [CHR 0x27] @ ''3.8'' @ [CHR 0x27]]"
    by (simp add: packages_nth_4 pip_install_def)
next
  assume a: "gate_passes e \<and> list_all exited (child_results e [] packages) \<and>
    child_results e [] packages ! 4 = Exit retcode \<and> retcode \<noteq> 0"
  then have gate: "gate_passes e"
    and req: "list_all exited (child_results e (check_calls initial) packages)"
    and ns: "\<not> succeeded (child_results e [] packages ! 4)"
    by simp_all
  have "packages ! 4 \<in> set (failed_of packages (child_results e [] packages))"
    using ns by (intro failed_of_nth) simp_all
  then show "''pickle5>=0.0.11; python_version<'' @ [CHR 0x27] @ ''3.8'' @ [CHR 0x27]
        \<in> set (failed_packages (snd (script e)))"
    using main_failed_packages [OF gate req]
    by (simp only: packages_nth_4 script_def check_calls_initial)
  have "(4::nat) < 5" by simp
  with ns have "\<exists>n<5. \<not> succeeded (child_results e [] packages ! n)"
    by blast
  then have ns': "\<not> list_all succeeded (child_results e [] packages)"
    by (simp add: list_all_length)
  assume opt: "list_all exited
      (child_results e (map (pip_install e) packages) optional_packages)"
  have "first_raise (child_results e [] (packages @ optional_packages)) = None"
    using a opt by (simp add: first_raise_None child_results_append)
  then show "exit_status e (script e) = 1"
    using ns' main_exit_status [OF gate, of initial] by (simp add: script_def)
next
  assume a: "gate_passes e \<and> gate_passes (e\<lparr>sys_version_info := v\<rparr>)"
  then have gate: "gate_passes e" and gate': "gate_passes (e\<lparr>sys_version_info := v\<rparr>)"
    by simp_all
  have pip: "pip_install (e\<lparr>sys_version_info := v\<rparr>) = pip_install e"
    by (rule ext) (simp add: pip_install_def)
  show "check_calls (snd (script (e\<lparr>sys_version_info := v\<rparr>))) = check_calls (snd (script e))"
    by (simp add: script_def main_calls [OF gate] main_calls [OF gate'] child_results_version_update
        pip del: map_append)
  show "fst (script (e\<lparr>sys_version_info := v\<rparr>)) = fst (script e)"
    by (simp add: script_def main_fst [OF gate] main_fst [OF gate'] child_results_version_update)
qed

text \<open>
  On Python 3.9.0, where the marker is false, the install of pickle5 fails; the same
  children on Python 3.7.4, where it is true.
\<close>

theorem marker_passed_verbatim_witness:
  "check_calls (snd (script env_pickle5_fails)) ! 4 =
     [''/usr/bin/python3'', ''-m'', ''pip'', ''install'',
      ''pickle5>=0.0.11; python_version<'' @ [CHR 0x27] @ ''3.8'' @ [CHR 0x27]] \<and>
   ''pickle5>=0.0.11; python_version<'' @ [CHR 0x27] @ ''3.8'' @ [CHR 0x27]
     \<in> set (failed_packages (snd (script env_pickle5_fails))) \<and>
   exit_status env_pickle5_fails (script env_pickle5_fails) = 1 \<and>
   check_calls (snd (script (env_pickle5_fails\<lparr>sys_version_info := \<lparr>major = 3, minor = 7, micro = 4\<rparr>\<rparr>)))
     = check_calls (snd (script env_pickle5_fails))"
  using marker_passed_verbatim [of env_pickle5_fails 1 "\<lparr>major = 3, minor = 7, micro = 4\<rparr>"]
  by (simp add: gate_passes_iff env_defs packages_def optional_packages_def pip_install_def)

text \<open>
  C10 as it is stated does not hold on every run that passes the gate: on Python 3.9.0,
  when the child of the first required install cannot be started, the run ends there and
  the specifier of pickle5 is never passed to pip.
\<close>

theorem marker_never_passed:
  "gate_passes env_numpy_raises \<and>
   [''/usr/bin/python3'', ''-m'', ''pip'', ''install'',
    ''pickle5>=0.0.11; python_version<'' @ [CHR 0x27] @ ''3.8'' @ [CHR 0x27]]
     \<notin> set (check_calls (snd (script env_numpy_raises)))"
  using main_calls [of env_numpy_raises initial]
  by (simp add: script_def gate_passes_iff env_defs packages_def optional_packages_def
      pip_install_def)

end
